theory Spec2Isabelle
  imports Main "HOL-Library.Multiset"
begin

section \<open>The task store of the todo application\<close>

text \<open>
  A shallow embedding of \<^verbatim>\<open>todo/models.py\<close> and \<^verbatim>\<open>todo/views.py\<close>.
  The table of \<^verbatim>\<open>Todo\<close> rows is a list of records, every view is a function from
  the request and the store to the outcome (a response or a raised exception), the
  messages it emits and the store it leaves. The clock \<^verbatim>\<open>timezone.now()\<close> is
  read through a parameter: \<open>clock i\<close> is the \<open>i\<close>-th reading made while one request
  is served. Timestamps are integers (a point on the time line).
\<close>

subsection \<open>The model: \<^verbatim>\<open>class Todo\<close>\<close>

type_synonym user_id = nat
type_synonym datetime = int

record todo =
  pk :: nat
  title :: string
  description :: string
  status :: string
  priority :: string
  due_date :: "datetime option"
  created_at :: datetime
  updated_at :: datetime
  completed_at :: "datetime option"
  owner :: user_id

text \<open>The table, in insertion order, and the next value of the auto-increment key.\<close>

record store =
  rows :: "todo list"
  next_pk :: nat

datatype exception = Http404 | MultipleObjectsReturned | ValidationError

text \<open>
  \<^verbatim>\<open>DateTimeField\<close> converts the value it is given when the row is written: \<^verbatim>\<open>None\<close>
  stays null, a string goes through the field's \<^verbatim>\<open>to_python\<close>, which raises
  \<^verbatim>\<open>ValidationError\<close> on a string it cannot read. The reader of strings belongs to
  the framework and is a parameter here: \<open>to_python s = None\<close> says that \<open>s\<close> has no
  valid format.
\<close>

definition get_prep_value ::
    "(string \<Rightarrow> datetime option) \<Rightarrow> string option \<Rightarrow> exception + datetime option" where
  "get_prep_value to_python raw =
     (case raw of
        None \<Rightarrow> Inr None
      | Some s \<Rightarrow> (case to_python s of None \<Rightarrow> Inl ValidationError | Some d \<Rightarrow> Inr (Some d)))"

text \<open>
  \<^verbatim>\<open>Model.save()\<close> of a row that exists: \<^verbatim>\<open>updated_at\<close> has \<^verbatim>\<open>auto_now\<close> and takes the
  reading \<open>now\<close>; the row with the object's key is overwritten.
\<close>

definition save :: "datetime \<Rightarrow> todo \<Rightarrow> store \<Rightarrow> store" where
  "save now t db =
     db\<lparr>rows := map (\<lambda>r. if pk r = pk t then t\<lparr>updated_at := now\<rparr> else r) (rows db)\<rparr>"

text \<open>\<^verbatim>\<open>Todo.delete()\<close>.\<close>

definition delete :: "todo \<Rightarrow> store \<Rightarrow> store" where
  "delete t db = db\<lparr>rows := filter (\<lambda>r. pk r \<noteq> pk t) (rows db)\<rparr>"

text \<open>\<^verbatim>\<open>Todo.mark_as_completed\<close>: \<open>now\<close> is its own reading of the clock, \<open>now_save\<close> the one of \<^verbatim>\<open>save()\<close>.\<close>

definition mark_as_completed :: "datetime \<Rightarrow> datetime \<Rightarrow> todo \<Rightarrow> store \<Rightarrow> store" where
  "mark_as_completed now now_save t db =
     save now_save (t\<lparr>status := ''completed'', completed_at := Some now\<rparr>) db"

text \<open>\<^verbatim>\<open>Todo.is_overdue\<close>; a stored \<^verbatim>\<open>due_date\<close> is truthy exactly when it is not null.\<close>

definition is_overdue :: "datetime \<Rightarrow> todo \<Rightarrow> bool" where
  "is_overdue now t =
     (if due_date t \<noteq> None \<and> status t \<noteq> ''completed'' then now > the (due_date t) else False)"

text \<open>
  \<^verbatim>\<open>Todo.objects.filter(...)\<close>, evaluated: the rows that satisfy the condition, in the
  order of \<^verbatim>\<open>Meta.ordering = ['-created_at']\<close>.
\<close>

definition objects_filter :: "(todo \<Rightarrow> bool) \<Rightarrow> store \<Rightarrow> todo list" where
  "objects_filter P db = sort_key (\<lambda>t. - created_at t) (filter P (rows db))"

text \<open>
  \<^verbatim>\<open>Todo.objects.create(...)\<close>: \<^verbatim>\<open>status\<close> and \<^verbatim>\<open>completed_at\<close> take their defaults,
  \<^verbatim>\<open>created_at\<close> (\<^verbatim>\<open>auto_now_add\<close>) and \<^verbatim>\<open>updated_at\<close> (\<^verbatim>\<open>auto_now\<close>) each read the clock.
\<close>

definition objects_create ::
    "(string \<Rightarrow> datetime option) \<Rightarrow> datetime \<Rightarrow> datetime \<Rightarrow> string \<Rightarrow> string \<Rightarrow> string \<Rightarrow>
     string option \<Rightarrow> user_id \<Rightarrow> store \<Rightarrow> exception + todo \<times> store" where
  "objects_create to_python now_created now_updated ttl descr prio due u db =
     (case get_prep_value to_python due of
        Inl e \<Rightarrow> Inl e
      | Inr d \<Rightarrow>
          (let t = \<lparr>pk = next_pk db, title = ttl, description = descr, status = ''pending'',
                    priority = prio, due_date = d, created_at = now_created,
                    updated_at = now_updated, completed_at = None, owner = u\<rparr>
           in Inr (t, db\<lparr>rows := rows db @ [t], next_pk := Suc (next_pk db)\<rparr>)))"

text \<open>\<^verbatim>\<open>get_object_or_404(Todo, pk=pk, owner=request.user)\<close>.\<close>

definition get_object_or_404 :: "store \<Rightarrow> nat \<Rightarrow> user_id \<Rightarrow> exception + todo" where
  "get_object_or_404 db k u =
     (case objects_filter (\<lambda>t. pk t = k \<and> owner t = u) db of
        [] \<Rightarrow> Inl Http404
      | [t] \<Rightarrow> Inr t
      | _ \<Rightarrow> Inl MultipleObjectsReturned)"

subsection \<open>The views\<close>

record request =
  http_method :: string
  user :: "user_id option"
  GET :: "string \<rightharpoonup> string"
  POST :: "string \<rightharpoonup> string"

record stats =
  total :: nat
  pending :: nat
  in_progress :: nat
  completed :: nat
  overdue :: nat
  high_priority :: nat

text \<open>The context handed to a template, one constructor for each shape the views build.\<close>

datatype template_context =
    ListContext "todo list" "string option" "string option"
  | TodoContext todo
  | FormContext string "todo option"
  | StatsContext stats

datatype response = Render string template_context | Redirect string "nat option"

datatype level = SUCCESS | ERROR

type_synonym result = "(exception + response) \<times> (level \<times> string) list \<times> store"

text \<open>Python's truth value of \<^verbatim>\<open>request.POST.get(key)\<close>: \<^verbatim>\<open>None\<close> and the empty string are false.\<close>

definition truthy :: "string option \<Rightarrow> bool" where
  "truthy v = (case v of None \<Rightarrow> False | Some s \<Rightarrow> s \<noteq> [])"

text \<open>\<^verbatim>\<open>dict.get(key, default)\<close>.\<close>

definition get_default :: "(string \<rightharpoonup> string) \<Rightarrow> string \<Rightarrow> string \<Rightarrow> string" where
  "get_default d key dflt = (case d key of None \<Rightarrow> dflt | Some v \<Rightarrow> v)"

definition todo_message :: "string \<Rightarrow> string \<Rightarrow> string" where
  "todo_message ttl what = ''TODO '' @ [CHR 0x22] @ ttl @ [CHR 0x22] @ '' '' @ what"

text \<open>\<^verbatim>\<open>@login_required\<close>: an anonymous request is sent to the login page.\<close>

definition login_required ::
    "(user_id \<Rightarrow> request \<Rightarrow> store \<Rightarrow> result) \<Rightarrow> request \<Rightarrow> store \<Rightarrow> result" where
  "login_required view req db =
     (case user req of
        None \<Rightarrow> (Inr (Redirect ''login'' None), [], db)
      | Some u \<Rightarrow> view u req db)"

definition todo_list_view :: "user_id \<Rightarrow> request \<Rightarrow> store \<Rightarrow> result" where
  "todo_list_view u req db =
     (let todos = objects_filter (\<lambda>t. owner t = u) db;
          status_filter = GET req ''status'';
          todos = (if truthy status_filter
                   then filter (\<lambda>t. status t = the status_filter) todos else todos);
          priority_filter = GET req ''priority'';
          todos = (if truthy priority_filter
                   then filter (\<lambda>t. priority t = the priority_filter) todos else todos)
      in (Inr (Render ''todo/todo_list.html'' (ListContext todos status_filter priority_filter)),
          [], db))"

definition todo_list :: "request \<Rightarrow> store \<Rightarrow> result" where
  "todo_list = login_required todo_list_view"

definition todo_detail_view :: "nat \<Rightarrow> user_id \<Rightarrow> request \<Rightarrow> store \<Rightarrow> result" where
  "todo_detail_view k u req db =
     (case get_object_or_404 db k u of
        Inl e \<Rightarrow> (Inl e, [], db)
      | Inr todo \<Rightarrow> (Inr (Render ''todo/todo_detail.html'' (TodoContext todo)), [], db))"

definition todo_detail :: "nat \<Rightarrow> request \<Rightarrow> store \<Rightarrow> result" where
  "todo_detail k = login_required (todo_detail_view k)"

definition todo_create_view ::
    "(string \<Rightarrow> datetime option) \<Rightarrow> (nat \<Rightarrow> datetime) \<Rightarrow> user_id \<Rightarrow> request \<Rightarrow> store \<Rightarrow> result" where
  "todo_create_view to_python clock u req db =
     (if http_method req = ''POST'' then
        (let ttl = POST req ''title'';
             descr = get_default (POST req) ''description'' [];
             prio = get_default (POST req) ''priority'' ''medium'';
             due = POST req ''due_date''
         in if truthy ttl then
              (case objects_create to_python (clock 0) (clock 1) (the ttl) descr prio
                      (if truthy due then due else None) u db of
                 Inl e \<Rightarrow> (Inl e, [], db)
               | Inr (todo, db') \<Rightarrow>
                   (Inr (Redirect ''todo_list'' None),
                    [(SUCCESS, todo_message (title todo) ''created successfully!'')], db'))
            else
              (Inr (Render ''todo/todo_form.html'' (FormContext ''Create'' None)),
               [(ERROR, ''Title is required!'')], db))
      else (Inr (Render ''todo/todo_form.html'' (FormContext ''Create'' None)), [], db))"

definition todo_create ::
    "(string \<Rightarrow> datetime option) \<Rightarrow> (nat \<Rightarrow> datetime) \<Rightarrow> request \<Rightarrow> store \<Rightarrow> result" where
  "todo_create to_python clock = login_required (todo_create_view to_python clock)"

definition todo_update_view ::
    "(string \<Rightarrow> datetime option) \<Rightarrow> (nat \<Rightarrow> datetime) \<Rightarrow> nat \<Rightarrow> user_id \<Rightarrow> request \<Rightarrow> store
     \<Rightarrow> result" where
  "todo_update_view to_python clock k u req db =
     (case get_object_or_404 db k u of
        Inl e \<Rightarrow> (Inl e, [], db)
      | Inr todo \<Rightarrow>
          if http_method req = ''POST'' then
            (let todo = todo\<lparr>title := get_default (POST req) ''title'' (title todo)\<rparr>;
                 todo = todo\<lparr>description :=
                               get_default (POST req) ''description'' (description todo)\<rparr>;
                 todo = todo\<lparr>status := get_default (POST req) ''status'' (status todo)\<rparr>;
                 todo = todo\<lparr>priority := get_default (POST req) ''priority'' (priority todo)\<rparr>;
                 due = POST req ''due_date''
             in case get_prep_value to_python (if truthy due then due else None) of
                  Inl e \<Rightarrow> (Inl e, [], db)
                | Inr d \<Rightarrow>
                    (let todo = todo\<lparr>due_date := d\<rparr>
                     in (Inr (Redirect ''todo_detail'' (Some (pk todo))),
                         [(SUCCESS, todo_message (title todo) ''updated successfully!'')],
                         save (clock 0) todo db)))
          else (Inr (Render ''todo/todo_form.html'' (FormContext ''Update'' (Some todo))), [], db))"

definition todo_update ::
    "(string \<Rightarrow> datetime option) \<Rightarrow> (nat \<Rightarrow> datetime) \<Rightarrow> nat \<Rightarrow> request \<Rightarrow> store \<Rightarrow> result" where
  "todo_update to_python clock k = login_required (todo_update_view to_python clock k)"

definition todo_delete_view :: "nat \<Rightarrow> user_id \<Rightarrow> request \<Rightarrow> store \<Rightarrow> result" where
  "todo_delete_view k u req db =
     (case get_object_or_404 db k u of
        Inl e \<Rightarrow> (Inl e, [], db)
      | Inr todo \<Rightarrow>
          if http_method req = ''POST'' then
            (Inr (Redirect ''todo_list'' None),
             [(SUCCESS, todo_message (title todo) ''deleted successfully!'')],
             delete todo db)
          else (Inr (Render ''todo/todo_confirm_delete.html'' (TodoContext todo)), [], db))"

definition todo_delete :: "nat \<Rightarrow> request \<Rightarrow> store \<Rightarrow> result" where
  "todo_delete k = login_required (todo_delete_view k)"

definition todo_complete_view ::
    "(nat \<Rightarrow> datetime) \<Rightarrow> nat \<Rightarrow> user_id \<Rightarrow> request \<Rightarrow> store \<Rightarrow> result" where
  "todo_complete_view clock k u req db =
     (case get_object_or_404 db k u of
        Inl e \<Rightarrow> (Inl e, [], db)
      | Inr todo \<Rightarrow>
          (Inr (Redirect ''todo_list'' None),
           [(SUCCESS, todo_message (title todo) ''marked as completed!'')],
           mark_as_completed (clock 0) (clock 1) todo db))"

definition todo_complete :: "(nat \<Rightarrow> datetime) \<Rightarrow> nat \<Rightarrow> request \<Rightarrow> store \<Rightarrow> result" where
  "todo_complete clock k = login_required (todo_complete_view clock k)"

text \<open>
  In \<^verbatim>\<open>todo_stats\<close> the generator calls \<^verbatim>\<open>is_overdue\<close> once for each row, and each call
  reads the clock: row \<open>i\<close> is judged at \<open>clock i\<close>.
\<close>

definition todo_stats_view :: "(nat \<Rightarrow> datetime) \<Rightarrow> user_id \<Rightarrow> request \<Rightarrow> store \<Rightarrow> result" where
  "todo_stats_view clock u req db =
     (let todos = objects_filter (\<lambda>t. owner t = u) db;
          stats = \<lparr>total = length todos,
                   pending = length (filter (\<lambda>t. status t = ''pending'') todos),
                   in_progress = length (filter (\<lambda>t. status t = ''in_progress'') todos),
                   completed = length (filter (\<lambda>t. status t = ''completed'') todos),
                   overdue = length (filter (\<lambda>(i, t). is_overdue (clock i) t)
                                       (enumerate 0 todos)),
                   high_priority = length (filter (\<lambda>t. priority t = ''high'') todos)\<rparr>
      in (Inr (Render ''todo/todo_stats.html'' (StatsContext stats)), [], db))"

definition todo_stats :: "(nat \<Rightarrow> datetime) \<Rightarrow> request \<Rightarrow> store \<Rightarrow> result" where
  "todo_stats clock = login_required (todo_stats_view clock)"

subsection \<open>The primary key, and sample inputs\<close>

text \<open>
  The database keeps \<^verbatim>\<open>pk\<close> a primary key: no two rows share a key, and the keys in use
  lie below the next one handed out.
\<close>

definition well_formed :: "store \<Rightarrow> bool" where
  "well_formed db =
     (distinct (map pk (rows db)) \<and> list_all (\<lambda>r. pk r < next_pk db) (rows db))"

text \<open>A run of \<^verbatim>\<open>todo_complete\<close> requests on one key, one clock for each request.\<close>

fun complete_calls :: "(nat \<Rightarrow> datetime) list \<Rightarrow> nat \<Rightarrow> request \<Rightarrow> store \<Rightarrow> store" where
  "complete_calls [] k req db = db"
| "complete_calls (c # cs) k req db = complete_calls cs k req (snd (snd (todo_complete c k req db)))"

text \<open>
  Inputs for the evaluations below: a reader of date strings that knows one date, a
  clock that starts at \<open>t0\<close> and advances by one at each reading, the empty table,
  requests of a logged-in user, and the store after that user has created one task.
\<close>

definition to_python_sample :: "string \<Rightarrow> datetime option" where
  "to_python_sample s = (if s = ''2030-01-01'' then Some 1000 else None)"

definition ticks :: "datetime \<Rightarrow> nat \<Rightarrow> datetime" where
  "ticks t0 i = t0 + int i"

definition empty_store :: store where
  "empty_store = \<lparr>rows = [], next_pk = 1\<rparr>"

definition POST_request :: "user_id \<Rightarrow> (string \<times> string) list \<Rightarrow> request" where
  "POST_request u kvs = \<lparr>http_method = ''POST'', user = Some u, GET = Map.empty, POST = map_of kvs\<rparr>"

definition GET_request :: "user_id \<Rightarrow> (string \<times> string) list \<Rightarrow> request" where
  "GET_request u kvs = \<lparr>http_method = ''GET'', user = Some u, GET = map_of kvs, POST = Map.empty\<rparr>"

definition one_task_store :: "user_id \<Rightarrow> store" where
  "one_task_store u =
     snd (snd (todo_create to_python_sample (ticks 10) (POST_request u [(''title'', ''a'')])
                 empty_store))"

definition archived_store :: store where
  "archived_store =
     snd (snd (todo_update to_python_sample (ticks 20) 1
                 (POST_request 1 [(''status'', ''archived'')]) (one_task_store 1)))"

definition two_owner_store :: store where
  "two_owner_store =
     (let db2 = snd (snd (todo_create to_python_sample (ticks 20)
                            (POST_request 2 [(''title'', ''b'')]) (one_task_store 1)));
          db3 = snd (snd (todo_create to_python_sample (ticks 30)
                            (POST_request 1 [(''title'', ''c''), (''priority'', ''high'')]) db2))
      in snd (snd (todo_complete (ticks 40) 1 (GET_request 1 []) db3)))"

text \<open>
  The rows that \<open>list\<close> is to return for owner \<open>u\<close>: a filter narrows the result when the
  request carries a non-empty value for it.
\<close>

definition matches_filters :: "user_id \<Rightarrow> string option \<Rightarrow> string option \<Rightarrow> todo \<Rightarrow> bool" where
  "matches_filters u status_filter priority_filter t =
     (owner t = u
      \<and> (truthy status_filter \<longrightarrow> status t = the status_filter)
      \<and> (truthy priority_filter \<longrightarrow> priority t = the priority_filter))"

subsection \<open>Properties of the model\<close>

text \<open>
  C2. For every task and every current time, \<open>is_overdue\<close> is true if and only if the
  due date is set, the current time is strictly after it and the status is not
  \<open>completed\<close>; it is false for every completed task and for every task with no due date.
\<close>

theorem is_overdue_iff:
  "(is_overdue now t \<longleftrightarrow>
      (\<exists>d. due_date t = Some d \<and> d < now) \<and> status t \<noteq> ''completed'')
   \<and> (is_overdue now (t\<lparr>status := ''completed''\<rparr>) = False)
   \<and> (is_overdue now (t\<lparr>due_date := None\<rparr>) = False)"
  by (auto simp: is_overdue_def)

lemmas view_defs =
  login_required_def truthy_def get_default_def get_prep_value_def objects_create_def
  todo_message_def Let_def

lemmas sample_defs =
  to_python_sample_def ticks_def empty_store_def POST_request_def GET_request_def

lemma one_task_store_eq:
  "one_task_store u =
     \<lparr>rows = [\<lparr>pk = 1, title = ''a'', description = [], status = ''pending'',
                priority = ''medium'', due_date = None, created_at = 10, updated_at = 11,
                completed_at = None, owner = u\<rparr>],
      next_pk = 2\<rparr>"
  by (simp add: one_task_store_def todo_create_def todo_create_view_def view_defs sample_defs)

lemma sort_key_eq_Nil: "sort_key f xs = [] \<longleftrightarrow> xs = []"
  by (metis length_sort length_0_conv)

lemma sort_key_eq_single: "sort_key f xs = [x] \<longleftrightarrow> xs = [x]"
proof
  assume h: "sort_key f xs = [x]"
  then have "length xs = 1"
    by (metis length_sort length_Cons list.size(3) One_nat_def)
  moreover from h have "set xs = {x}"
    by (metis set_sort list.simps(15) empty_set)
  ultimately show "xs = [x]" by (cases xs) auto
qed simp

lemma get_object_or_404_Inr:
  "get_object_or_404 db k u = Inr t \<longleftrightarrow>
     filter (\<lambda>r. pk r = k \<and> owner r = u) (rows db) = [t]"
  by (auto simp: get_object_or_404_def objects_filter_def sort_key_eq_single
           split: list.splits)

lemma get_object_or_404_Http404:
  "get_object_or_404 db k u = Inl Http404 \<longleftrightarrow>
     (\<forall>r \<in> set (rows db). pk r = k \<longrightarrow> owner r \<noteq> u)"
proof -
  let ?xs = "filter (\<lambda>t. pk t = k \<and> owner t = u) (rows db)"
  have "get_object_or_404 db k u = Inl Http404 \<longleftrightarrow>
          sort_key (\<lambda>t. - created_at t) ?xs = []"
    by (simp add: get_object_or_404_def objects_filter_def split: list.splits)
  also have "\<dots> \<longleftrightarrow> ?xs = []" by (rule sort_key_eq_Nil)
  also have "\<dots> \<longleftrightarrow> (\<forall>r \<in> set (rows db). pk r = k \<longrightarrow> owner r \<noteq> u)"
    by (auto simp: filter_empty_conv)
  finally show ?thesis .
qed

lemma get_object_or_404_single:
  "get_object_or_404 \<lparr>rows = [t], next_pk = n\<rparr> k u =
     (if pk t = k \<and> owner t = u then Inr t else Inl Http404)"
  by (simp add: get_object_or_404_def objects_filter_def)

lemma archived_store_eq:
  "archived_store =
     \<lparr>rows = [\<lparr>pk = 1, title = ''a'', description = [], status = ''archived'',
                priority = ''medium'', due_date = None, created_at = 10, updated_at = 20,
                completed_at = None, owner = 1\<rparr>],
      next_pk = 2\<rparr>"
  by (simp add: archived_store_def one_task_store_eq todo_update_def todo_update_view_def
        get_object_or_404_single save_def view_defs sample_defs)

lemma length_filter_sort_key: "length (filter P (sort_key f xs)) = length (filter P xs)"
  by (simp add: filter_sort)

lemma status_counts_split:
  "length (filter (\<lambda>t. status t = ''pending'') xs)
   + length (filter (\<lambda>t. status t = ''in_progress'') xs)
   + length (filter (\<lambda>t. status t = ''completed'') xs)
   + length (filter (\<lambda>t. status t \<notin> {''pending'', ''in_progress'', ''completed''}) xs)
   = length xs"
  by (induction xs) auto

lemma length_filter_zero: "length (filter P xs) = 0 \<longleftrightarrow> (\<forall>x \<in> set xs. \<not> P x)"
  by (simp add: filter_empty_conv)

lemma get_object_or_404_InrD:
  assumes "get_object_or_404 db k u = Inr t"
  shows "pk t = k" and "owner t = u" and "t \<in> set (rows db)"
proof -
  from assms have "filter (\<lambda>r. pk r = k \<and> owner r = u) (rows db) = [t]"
    by (simp add: get_object_or_404_Inr)
  then have "t \<in> set (filter (\<lambda>r. pk r = k \<and> owner r = u) (rows db))" by simp
  then show "pk t = k" and "owner t = u" and "t \<in> set (rows db)" by simp_all
qed

lemma filter_single_replace:
  assumes "distinct (map pk xs)" and "filter (\<lambda>r. pk r = k \<and> owner r = u) xs = [t]"
    and "pk t' = k" and "owner t' = u"
  shows "filter (\<lambda>r. pk r = k \<and> owner r = u) (map (\<lambda>r. if pk r = k then t' else r) xs) = [t']"
  using assms
proof (induction xs)
  case Nil
  then show ?case by simp
next
  case (Cons x xs)
  show ?case
  proof (cases "pk x = k")
    case True
    with Cons.prems(1) have nk: "\<forall>r \<in> set xs. pk r \<noteq> k" by (auto simp: image_iff)
    then have m: "map (\<lambda>r. if pk r = k then t' else r) xs = xs" by (simp add: map_idI)
    from nk have "filter (\<lambda>r. pk r = k \<and> owner r = u) xs = []" by (simp add: filter_empty_conv)
    with m True Cons.prems show ?thesis by simp
  next
    case False
    with Cons show ?thesis by simp
  qed
qed

lemma map_pk_replace:
  "pk t' = k \<Longrightarrow> map pk (map (\<lambda>r. if pk r = k then t' else r) xs) = map pk xs"
  by (induction xs) auto

lemma well_formed_save:
  assumes "well_formed db"
  shows "well_formed (save now t db)"
proof -
  have m: "map pk (rows (save now t db)) = map pk (rows db)"
    using map_pk_replace [of "t\<lparr>updated_at := now\<rparr>" "pk t" "rows db"] by (simp add: save_def)
  then have "pk ` set (rows (save now t db)) = pk ` set (rows db)"
    by (metis list.set_map)
  then have "(\<forall>r \<in> set (rows (save now t db)). pk r < next_pk db)
               = (\<forall>r \<in> set (rows db). pk r < next_pk db)"
    by (metis (no_types, lifting) image_iff imageI)
  moreover have "next_pk (save now t db) = next_pk db" by (simp add: save_def)
  ultimately show ?thesis using assms m
    by (simp add: well_formed_def list_all_iff)
qed

lemma get_save:
  assumes "well_formed db" and "get_object_or_404 db k u = Inr t"
    and "pk t' = k" and "owner t' = u"
  shows "get_object_or_404 (save now t' db) k u = Inr (t'\<lparr>updated_at := now\<rparr>)"
proof -
  from assms(1) have d: "distinct (map pk (rows db))" by (simp add: well_formed_def)
  from assms(2) have f: "filter (\<lambda>r. pk r = k \<and> owner r = u) (rows db) = [t]"
    by (simp add: get_object_or_404_Inr)
  have "filter (\<lambda>r. pk r = k \<and> owner r = u)
          (map (\<lambda>r. if pk r = k then t'\<lparr>updated_at := now\<rparr> else r) (rows db))
        = [t'\<lparr>updated_at := now\<rparr>]"
    using d f assms(3,4) by (intro filter_single_replace) simp_all
  then show ?thesis using assms(3) by (simp add: get_object_or_404_Inr save_def)
qed

lemma filter_others_replace:
  "pk t' = k \<Longrightarrow>
     filter (\<lambda>r. pk r \<noteq> k) (map (\<lambda>r. if pk r = k then t' else r) xs) = filter (\<lambda>r. pk r \<noteq> k) xs"
  by (induction xs) auto

lemma others_save:
  "filter (\<lambda>r. pk r \<noteq> pk t) (rows (save now t db)) = filter (\<lambda>r. pk r \<noteq> pk t) (rows db)"
  using filter_others_replace [of "t\<lparr>updated_at := now\<rparr>" "pk t" "rows db"]
  by (simp add: save_def)

lemma todo_complete_found:
  assumes "user req = Some u" and "get_object_or_404 db k u = Inr t"
  shows "todo_complete clock k req db =
           (Inr (Redirect ''todo_list'' None),
            [(SUCCESS, todo_message (title t) ''marked as completed!'')],
            save (clock 1) (t\<lparr>status := ''completed'', completed_at := Some (clock 0)\<rparr>) db)"
  using assms
  by (simp add: todo_complete_def todo_complete_view_def login_required_def mark_as_completed_def)

text \<open>The empty table has the primary key, and every view keeps it.\<close>

lemma well_formed_empty_store: "well_formed empty_store"
  by (simp add: well_formed_def empty_store_def)

lemma well_formed_objects_create:
  assumes "well_formed db"
    and "objects_create to_python now_c now_u ttl descr prio due u db = Inr (t, db')"
  shows "well_formed db'"
proof -
  from assms(2) obtain d where
    db': "db' = db\<lparr>rows := rows db @ [t], next_pk := Suc (next_pk db)\<rparr>"
    and t: "pk t = next_pk db"
    by (auto simp: objects_create_def Let_def split: sum.splits)
  from assms(1) have "next_pk db \<notin> pk ` set (rows db)"
    by (auto simp: well_formed_def list_all_iff)
  with assms(1) show ?thesis
    by (auto simp: db' t well_formed_def list_all_iff less_Suc_eq)
qed

lemma well_formed_delete: "well_formed db \<Longrightarrow> well_formed (delete t db)"
  by (auto simp: delete_def well_formed_def list_all_iff distinct_map_filter)

lemma well_formed_todo_create:
  "well_formed db \<Longrightarrow> well_formed (snd (snd (todo_create to_python clock req db)))"
  by (auto simp: todo_create_def todo_create_view_def login_required_def Let_def
           split: option.splits sum.splits dest: well_formed_objects_create)

lemma well_formed_todo_update:
  "well_formed db \<Longrightarrow> well_formed (snd (snd (todo_update to_python clock k req db)))"
  by (auto simp: todo_update_def todo_update_view_def login_required_def Let_def
           split: option.splits sum.splits intro: well_formed_save)

lemma well_formed_todo_delete:
  "well_formed db \<Longrightarrow> well_formed (snd (snd (todo_delete k req db)))"
  by (auto simp: todo_delete_def todo_delete_view_def login_required_def
           split: option.splits sum.splits intro: well_formed_delete)

lemma well_formed_todo_complete:
  "well_formed db \<Longrightarrow> well_formed (snd (snd (todo_complete clock k req db)))"
  by (auto simp: todo_complete_def todo_complete_view_def login_required_def
        mark_as_completed_def split: option.splits sum.splits intro: well_formed_save)

lemma well_formed_one_task_store: "well_formed (one_task_store u)"
  by (simp add: one_task_store_eq well_formed_def)

lemma get_one_task_store:
  "get_object_or_404 (one_task_store u) 1 u =
     Inr \<lparr>pk = 1, title = ''a'', description = [], status = ''pending'',
          priority = ''medium'', due_date = None, created_at = 10, updated_at = 11,
          completed_at = None, owner = u\<rparr>"
  by (simp add: one_task_store_eq get_object_or_404_single)

lemma complete_calls_state:
  assumes "well_formed db" and "user req = Some u" and "get_object_or_404 db k u = Inr t"
    and "cs \<noteq> []"
  shows "well_formed (complete_calls cs k req db)
       \<and> get_object_or_404 (complete_calls cs k req db) k u =
           Inr (t\<lparr>status := ''completed'', completed_at := Some (last cs 0),
                  updated_at := last cs 1\<rparr>)"
  using assms
proof (induction cs arbitrary: db t)
  case Nil
  then show ?case by simp
next
  case (Cons c cs)
  let ?t1 = "t\<lparr>status := ''completed'', completed_at := Some (c 0)\<rparr>"
  let ?db1 = "save (c 1) ?t1 db"
  from Cons.prems(3) have kt: "pk t = k" and ot: "owner t = u"
    by (rule get_object_or_404_InrD)+
  have step: "snd (snd (todo_complete c k req db)) = ?db1"
    using todo_complete_found [OF Cons.prems(2,3), of c] by simp
  have wf1: "well_formed ?db1" using Cons.prems(1) by (rule well_formed_save)
  have get1: "get_object_or_404 ?db1 k u = Inr (?t1\<lparr>updated_at := c 1\<rparr>)"
    using Cons.prems(1,3) kt ot by (intro get_save) simp_all
  show ?case
  proof (cases "cs = []")
    case True
    with step wf1 get1 show ?thesis by simp
  next
    case False
    from Cons.IH [OF wf1 Cons.prems(2) get1 False] step False
    show ?thesis by simp
  qed
qed

lemma todo_update_success:
  assumes "user req = Some u"
    and "todo_update to_python clock k req db = (Inr (Redirect ''todo_detail'' p), msgs, db')"
  shows "\<exists>t d. get_object_or_404 db k u = Inr t
           \<and> http_method req = ''POST''
           \<and> get_prep_value to_python
                 (if truthy (POST req ''due_date'') then POST req ''due_date'' else None) = Inr d
           \<and> db' = save (clock 0)
                 (t\<lparr>title := get_default (POST req) ''title'' (title t),
                    description := get_default (POST req) ''description'' (description t),
                    status := get_default (POST req) ''status'' (status t),
                    priority := get_default (POST req) ''priority'' (priority t),
                    due_date := d\<rparr>) db"
proof (cases "get_object_or_404 db k u")
  case (Inl e)
  with assms show ?thesis
    by (simp add: todo_update_def todo_update_view_def login_required_def)
next
  case (Inr t)
  show ?thesis
  proof (cases "http_method req = ''POST''")
    case False
    with assms Inr show ?thesis
      by (simp add: todo_update_def todo_update_view_def login_required_def)
  next
    case True
    show ?thesis
    proof (cases "get_prep_value to_python
                 (if truthy (POST req ''due_date'') then POST req ''due_date'' else None)")
      case (Inl e)
      with assms Inr True show ?thesis
        by (simp add: todo_update_def todo_update_view_def login_required_def Let_def)
    next
      case d: (Inr d)
      with assms Inr True show ?thesis
        by (simp add: todo_update_def todo_update_view_def login_required_def Let_def)
    qed
  qed
qed

lemma get_prep_value_None: "get_prep_value to_python None = Inr d \<Longrightarrow> d = None"
  by (simp add: get_prep_value_def)

lemma todo_update_effect:
  assumes "well_formed db" and "user req = Some u"
    and "todo_update to_python clock k req db = (Inr (Redirect ''todo_detail'' p), msgs, db')"
  shows "\<exists>t d. get_object_or_404 db k u = Inr t
           \<and> get_prep_value to_python
                 (if truthy (POST req ''due_date'') then POST req ''due_date'' else None) = Inr d
           \<and> get_object_or_404 db' k u =
               Inr (t\<lparr>title := get_default (POST req) ''title'' (title t),
                      description := get_default (POST req) ''description'' (description t),
                      status := get_default (POST req) ''status'' (status t),
                      priority := get_default (POST req) ''priority'' (priority t),
                      due_date := d, updated_at := clock 0\<rparr>)"
proof -
  from todo_update_success [OF assms(2,3)] obtain t d where
    g: "get_object_or_404 db k u = Inr t"
    and d: "get_prep_value to_python
                 (if truthy (POST req ''due_date'') then POST req ''due_date'' else None) = Inr d"
    and db': "db' = save (clock 0)
                 (t\<lparr>title := get_default (POST req) ''title'' (title t),
                    description := get_default (POST req) ''description'' (description t),
                    status := get_default (POST req) ''status'' (status t),
                    priority := get_default (POST req) ''priority'' (priority t),
                    due_date := d\<rparr>) db"
    by blast
  from g have kt: "pk t = k" and ot: "owner t = u" by (rule get_object_or_404_InrD)+
  have "get_object_or_404 db' k u =
               Inr (t\<lparr>title := get_default (POST req) ''title'' (title t),
                      description := get_default (POST req) ''description'' (description t),
                      status := get_default (POST req) ''status'' (status t),
                      priority := get_default (POST req) ''priority'' (priority t),
                      due_date := d\<rparr>\<lparr>updated_at := clock 0\<rparr>)"
    unfolding db' using assms(1) g kt ot by (intro get_save) simp_all
  with g d show ?thesis by simp
qed

lemma update_one_task_store:
  "todo_update to_python_sample (ticks 20) 1 (POST_request 1 [(''status'', v)])
       (one_task_store 1) =
     (Inr (Redirect ''todo_detail'' (Some 1)),
      [(SUCCESS, todo_message ''a'' ''updated successfully!'')],
      \<lparr>rows = [\<lparr>pk = 1, title = ''a'', description = [], status = v,
                 priority = ''medium'', due_date = None, created_at = 10, updated_at = 20,
                 completed_at = None, owner = 1\<rparr>],
       next_pk = 2\<rparr>)"
  by (simp add: one_task_store_eq todo_update_def todo_update_view_def
        get_object_or_404_single save_def login_required_def truthy_def get_default_def
        get_prep_value_def Let_def sample_defs)

lemma POST_POST_request: "POST (POST_request u kvs) = map_of kvs"
  by (simp add: POST_request_def)

lemma sorted_desc_sort_key:
  "sorted_wrt (\<lambda>a b. created_at b \<le> created_at a) (sort_key (\<lambda>t. - created_at t) xs)"
proof -
  have "sorted (map (\<lambda>t. - created_at t) (sort_key (\<lambda>t. - created_at t) xs))"
    by (rule sorted_sort_key)
  then show ?thesis by (simp add: sorted_map)
qed

lemma todo_list_view_eq:
  "todo_list_view u req db =
     (Inr (Render ''todo/todo_list.html''
        (ListContext
           (sort_key (\<lambda>t. - created_at t)
              (filter (matches_filters u (GET req ''status'') (GET req ''priority'')) (rows db)))
           (GET req ''status'') (GET req ''priority''))), [], db)"
proof -
  have "\<And>P Q xs. filter P (sort_key (\<lambda>t. - created_at t) (filter Q xs))
          = sort_key (\<lambda>t. - created_at t) (filter (\<lambda>t. Q t \<and> P t) xs)"
    by (simp add: filter_sort)
  then show ?thesis
    by (auto simp: todo_list_view_def objects_filter_def matches_filters_def Let_def filter_sort
             intro!: arg_cong [where f = "sort_key (\<lambda>t. - created_at t)"] filter_cong)
qed

lemma two_owner_store_eq:
  "two_owner_store =
     \<lparr>rows = [\<lparr>pk = 1, title = ''a'', description = [], status = ''completed'',
                priority = ''medium'', due_date = None, created_at = 10, updated_at = 41,
                completed_at = Some 40, owner = 1\<rparr>,
              \<lparr>pk = 2, title = ''b'', description = [], status = ''pending'',
                priority = ''medium'', due_date = None, created_at = 20, updated_at = 21,
                completed_at = None, owner = 2\<rparr>,
              \<lparr>pk = 3, title = ''c'', description = [], status = ''pending'',
                priority = ''high'', due_date = None, created_at = 30, updated_at = 31,
                completed_at = None, owner = 1\<rparr>],
      next_pk = 4\<rparr>"
  by (simp add: two_owner_store_def one_task_store_eq todo_create_def todo_create_view_def
        todo_complete_def todo_complete_view_def mark_as_completed_def save_def
        get_object_or_404_def objects_filter_def view_defs sample_defs)

lemma GET_GET_request: "GET (GET_request u kvs) = map_of kvs"
  by (simp add: GET_request_def)

lemma user_GET_request: "user (GET_request u kvs) = Some u"
  by (simp add: GET_request_def)

text \<open>
  C3. For a logged-in user \<open>u\<close> and a key \<open>k\<close> such that no row has key \<open>k\<close> and owner
  \<open>u\<close> (there is no row with that key at all, or the row with that key belongs to
  somebody else), each of \<open>todo_detail\<close>, \<open>todo_update\<close>, \<open>todo_delete\<close> and
  \<open>todo_complete\<close> raises \<open>Http404\<close>, emits no message and leaves the store as it was;
  the outcome is the same value in both cases, whatever the method and the parameters
  of the request.
\<close>

theorem not_found_when_absent_or_foreign:
  assumes "user req = Some u"
    and "\<forall>r \<in> set (rows db). pk r = k \<longrightarrow> owner r \<noteq> u"
  shows "todo_detail k req db = (Inl Http404, [], db)
       \<and> todo_update to_python clock k req db = (Inl Http404, [], db)
       \<and> todo_delete k req db = (Inl Http404, [], db)
       \<and> todo_complete clock k req db = (Inl Http404, [], db)"
proof -
  from assms(2) have "get_object_or_404 db k u = Inl Http404"
    by (simp add: get_object_or_404_Http404)
  with assms(1) show ?thesis
    by (simp add: todo_detail_def todo_detail_view_def todo_update_def todo_update_view_def
          todo_delete_def todo_delete_view_def todo_complete_def todo_complete_view_def
          login_required_def)
qed

theorem not_found_when_absent_or_foreign_witness:
  "(todo_detail 1 (GET_request 1 []) (one_task_store 2) = (Inl Http404, [], one_task_store 2)
    \<and> todo_update to_python_sample (ticks 20) 1 (POST_request 1 [(''title'', ''mine'')])
        (one_task_store 2) = (Inl Http404, [], one_task_store 2)
    \<and> todo_delete 1 (POST_request 1 []) (one_task_store 2) = (Inl Http404, [], one_task_store 2)
    \<and> todo_complete (ticks 20) 1 (GET_request 1 []) (one_task_store 2)
        = (Inl Http404, [], one_task_store 2))
   \<and> (todo_detail 7 (GET_request 2 []) (one_task_store 2) = (Inl Http404, [], one_task_store 2)
    \<and> todo_delete 7 (POST_request 2 []) (one_task_store 2) = (Inl Http404, [], one_task_store 2))
   \<and> rows (one_task_store 2) \<noteq> []"
  using not_found_when_absent_or_foreign [of "GET_request 1 []" 1 "one_task_store 2" 1]
    not_found_when_absent_or_foreign
      [of "POST_request 1 [(''title'', ''mine'')]" 1 "one_task_store 2" 1 to_python_sample "ticks 20"]
    not_found_when_absent_or_foreign [of "POST_request 1 []" 1 "one_task_store 2" 1]
    not_found_when_absent_or_foreign [of "GET_request 1 []" 1 "one_task_store 2" 1 _ "ticks 20"]
    not_found_when_absent_or_foreign [of "GET_request 2 []" 2 "one_task_store 2" 7]
    not_found_when_absent_or_foreign [of "POST_request 2 []" 2 "one_task_store 2" 7]
  by (simp add: one_task_store_eq sample_defs)

text \<open>
  C4. A \<open>POST\<close> to \<open>todo_create\<close> by a logged-in user whose \<open>title\<close> is absent or empty
  is refused: the form is shown again with the error message \<open>Title is required!\<close>, and
  the store is exactly the one before the call (no row is added, the number of rows is
  the same).
\<close>

theorem create_without_title_refused:
  assumes "user req = Some u" and "http_method req = ''POST''"
    and "POST req ''title'' = None \<or> POST req ''title'' = Some []"
  shows "todo_create to_python clock req db =
           (Inr (Render ''todo/todo_form.html'' (FormContext ''Create'' None)),
            [(ERROR, ''Title is required!'')], db)
       \<and> length (rows (snd (snd (todo_create to_python clock req db)))) = length (rows db)"
  using assms
  by (auto simp: todo_create_def todo_create_view_def login_required_def truthy_def Let_def)

theorem create_without_title_refused_witness:
  "todo_create to_python_sample (ticks 20) (POST_request 1 [(''description'', ''No title'')])
       (one_task_store 1) =
     (Inr (Render ''todo/todo_form.html'' (FormContext ''Create'' None)),
      [(ERROR, ''Title is required!'')], one_task_store 1)
   \<and> todo_create to_python_sample (ticks 20) (POST_request 1 [(''title'', [])])
       (one_task_store 1) =
     (Inr (Render ''todo/todo_form.html'' (FormContext ''Create'' None)),
      [(ERROR, ''Title is required!'')], one_task_store 1)"
  using create_without_title_refused
      [of "POST_request 1 [(''description'', ''No title'')]" 1 to_python_sample "ticks 20"
          "one_task_store 1"]
    create_without_title_refused
      [of "POST_request 1 [(''title'', [])]" 1 to_python_sample "ticks 20" "one_task_store 1"]
  by (simp add: POST_request_def)

text \<open>
  C9 (as stated). A \<open>due_date\<close> that does not parse is not treated as absent: the
  request below has a title and the value \<open>next week\<close>, which the reader of dates
  rejects; \<open>todo_create\<close> raises \<open>ValidationError\<close> and stores nothing.
\<close>

theorem create_unparsable_due_date_counterexample:
  "to_python_sample ''next week'' = None
   \<and> todo_create to_python_sample (ticks 10)
       (POST_request 1 [(''title'', ''a''), (''due_date'', ''next week'')]) empty_store
     = (Inl ValidationError, [], empty_store)
   \<and> rows empty_store = []"
  by (simp add: todo_create_def todo_create_view_def view_defs sample_defs)


text \<open>
  C9 (amended). For a \<open>POST\<close> to \<open>todo_create\<close> by a logged-in user with a non-empty
  title: when \<open>due_date\<close> is absent or empty the task is stored with no due date; when
  it is a non-empty value that parses, the task is stored with that timestamp; when it
  is a non-empty value that does not parse, \<open>ValidationError\<close> is raised and the store
  is left as it was.
\<close>

theorem create_due_date:
  assumes "user req = Some u" and "http_method req = ''POST''" and "truthy (POST req ''title'')"
  shows "(\<not> truthy (POST req ''due_date'') \<longrightarrow>
            (\<exists>msgs t. todo_create to_python clock req db =
                 (Inr (Redirect ''todo_list'' None), msgs,
                  db\<lparr>rows := rows db @ [t], next_pk := Suc (next_pk db)\<rparr>)
               \<and> due_date t = None))
       \<and> (\<forall>s d. POST req ''due_date'' = Some s \<and> s \<noteq> [] \<and> to_python s = Some d \<longrightarrow>
            (\<exists>msgs t. todo_create to_python clock req db =
                 (Inr (Redirect ''todo_list'' None), msgs,
                  db\<lparr>rows := rows db @ [t], next_pk := Suc (next_pk db)\<rparr>)
               \<and> due_date t = Some d))
       \<and> (\<forall>s. POST req ''due_date'' = Some s \<and> s \<noteq> [] \<and> to_python s = None \<longrightarrow>
            todo_create to_python clock req db = (Inl ValidationError, [], db))"
  using assms
  by (auto simp: todo_create_def todo_create_view_def view_defs)

theorem create_due_date_witness:
  "(\<exists>msgs t. todo_create to_python_sample (ticks 10)
        (POST_request 1 [(''title'', ''a''), (''due_date'', [])]) empty_store =
      (Inr (Redirect ''todo_list'' None), msgs,
       empty_store\<lparr>rows := rows empty_store @ [t], next_pk := Suc (next_pk empty_store)\<rparr>)
      \<and> due_date t = None)
   \<and> (\<exists>msgs t. todo_create to_python_sample (ticks 10)
        (POST_request 1 [(''title'', ''a''), (''due_date'', ''2030-01-01'')]) empty_store =
      (Inr (Redirect ''todo_list'' None), msgs,
       empty_store\<lparr>rows := rows empty_store @ [t], next_pk := Suc (next_pk empty_store)\<rparr>)
      \<and> due_date t = Some 1000)
   \<and> todo_create to_python_sample (ticks 10)
        (POST_request 1 [(''title'', ''a''), (''due_date'', ''next week'')]) empty_store =
      (Inl ValidationError, [], empty_store)"
  using create_due_date [of "POST_request 1 [(''title'', ''a''), (''due_date'', [])]" 1
          to_python_sample "ticks 10" empty_store]
    create_due_date [of "POST_request 1 [(''title'', ''a''), (''due_date'', ''2030-01-01'')]" 1
          to_python_sample "ticks 10" empty_store]
    create_due_date [of "POST_request 1 [(''title'', ''a''), (''due_date'', ''next week'')]" 1
          to_python_sample "ticks 10" empty_store]
  by (simp add: POST_request_def truthy_def to_python_sample_def)


text \<open>
  C1 (as stated). The store below is reached from the empty table by one \<open>todo_create\<close>
  and one \<open>todo_update\<close> that sets the status to \<open>archived\<close>; its owner has one task,
  which none of the three status counts includes.
\<close>

theorem stats_sum_counterexample:
  "todo_stats (ticks 30) (GET_request 1 []) archived_store =
     (Inr (Render ''todo/todo_stats.html''
        (StatsContext \<lparr>total = 1, pending = 0, in_progress = 0, completed = 0, overdue = 0,
                       high_priority = 0\<rparr>)), [], archived_store)
   \<and> pending \<lparr>total = 1, pending = 0, in_progress = 0, completed = 0, overdue = 0,
               high_priority = 0\<rparr>
     + in_progress \<lparr>total = 1, pending = 0, in_progress = 0, completed = 0, overdue = 0,
               high_priority = 0\<rparr>
     + completed \<lparr>total = 1, pending = 0, in_progress = 0, completed = 0, overdue = 0,
               high_priority = 0\<rparr>
     \<noteq> total \<lparr>total = 1, pending = 0, in_progress = 0, completed = 0, overdue = 0,
               high_priority = 0\<rparr>"
  by (simp add: archived_store_eq todo_stats_def todo_stats_view_def objects_filter_def
        is_overdue_def view_defs sample_defs)


text \<open>
  C1 (amended). For every store and every logged-in owner, \<open>todo_stats\<close> counts in
  \<open>total\<close> all rows of that owner and in \<open>pending\<close>, \<open>in_progress\<close> and \<open>completed\<close>
  the rows of that owner with exactly that status; the three counts add up to at most
  \<open>total\<close>, and to exactly \<open>total\<close> if and only if every row of that owner has one of
  the three statuses.
\<close>

theorem stats_status_counts:
  assumes "user req = Some u"
  shows "\<exists>s. todo_stats clock req db = (Inr (Render ''todo/todo_stats.html'' (StatsContext s)), [], db)
     \<and> total s = length (filter (\<lambda>t. owner t = u) (rows db))
     \<and> pending s = length (filter (\<lambda>t. owner t = u \<and> status t = ''pending'') (rows db))
     \<and> in_progress s = length (filter (\<lambda>t. owner t = u \<and> status t = ''in_progress'') (rows db))
     \<and> completed s = length (filter (\<lambda>t. owner t = u \<and> status t = ''completed'') (rows db))
     \<and> pending s + in_progress s + completed s \<le> total s
     \<and> (pending s + in_progress s + completed s = total s \<longleftrightarrow>
          (\<forall>t \<in> set (rows db). owner t = u \<longrightarrow>
             status t \<in> {''pending'', ''in_progress'', ''completed''}))"
proof -
  let ?xs = "filter (\<lambda>t. owner t = u) (rows db)"
  let ?p = "length (filter (\<lambda>t. status t = ''pending'') ?xs)"
  let ?i = "length (filter (\<lambda>t. status t = ''in_progress'') ?xs)"
  let ?c = "length (filter (\<lambda>t. status t = ''completed'') ?xs)"
  let ?o = "length (filter (\<lambda>t. status t \<notin> {''pending'', ''in_progress'', ''completed''}) ?xs)"
  let ?s = "\<lparr>total = length ?xs, pending = ?p, in_progress = ?i, completed = ?c,
             overdue = length (filter (\<lambda>(i, t). is_overdue (clock i) t)
                                 (enumerate 0 (objects_filter (\<lambda>t. owner t = u) db))),
             high_priority = length (filter (\<lambda>t. priority t = ''high'') ?xs)\<rparr>"
  have res: "todo_stats clock req db = (Inr (Render ''todo/todo_stats.html'' (StatsContext ?s)), [], db)"
    using assms
    by (simp add: todo_stats_def todo_stats_view_def login_required_def objects_filter_def
          Let_def length_filter_sort_key)
  have split: "?p + ?i + ?c + ?o = length ?xs" by (rule status_counts_split)
  have o: "?o = 0 \<longleftrightarrow> (\<forall>t \<in> set (rows db). owner t = u \<longrightarrow>
             status t \<in> {''pending'', ''in_progress'', ''completed''})"
    unfolding length_filter_zero by auto
  have le: "?p + ?i + ?c \<le> length ?xs" using split by linarith
  have eq: "?p + ?i + ?c = length ?xs \<longleftrightarrow> ?o = 0" using split by linarith
  have conj: "\<And>P. filter P ?xs = filter (\<lambda>t. owner t = u \<and> P t) (rows db)"
    by simp
  have "total ?s = length ?xs" by simp
  moreover have "pending ?s = length (filter (\<lambda>t. owner t = u \<and> status t = ''pending'') (rows db))"
    by (simp only: stats.simps conj)
  moreover have "in_progress ?s = length (filter (\<lambda>t. owner t = u \<and> status t = ''in_progress'') (rows db))"
    by (simp only: stats.simps conj)
  moreover have "completed ?s = length (filter (\<lambda>t. owner t = u \<and> status t = ''completed'') (rows db))"
    by (simp only: stats.simps conj)
  moreover have "pending ?s + in_progress ?s + completed ?s \<le> total ?s"
    using le by (simp only: stats.simps)
  moreover have "pending ?s + in_progress ?s + completed ?s = total ?s \<longleftrightarrow>
          (\<forall>t \<in> set (rows db). owner t = u \<longrightarrow>
             status t \<in> {''pending'', ''in_progress'', ''completed''})"
    using eq o by (simp only: stats.simps)
  ultimately show ?thesis using res by blast
qed

theorem stats_status_counts_witness:
  "\<exists>s. todo_stats (ticks 30) (GET_request 1 []) (one_task_store 1) =
         (Inr (Render ''todo/todo_stats.html'' (StatsContext s)), [], one_task_store 1)
       \<and> total s = 1 \<and> pending s = 1 \<and> in_progress s = 0 \<and> completed s = 0
       \<and> pending s + in_progress s + completed s = total s"
  using stats_status_counts [of "GET_request 1 []" 1 "ticks 30" "one_task_store 1"]
  by (auto simp: one_task_store_eq GET_request_def)

text \<open>
  C5. For every successful update (a \<open>POST\<close> to \<open>todo_update\<close> answered by the redirect
  to the detail page), each of \<open>title\<close>, \<open>description\<close>, \<open>status\<close> and \<open>priority\<close>
  that the request does not carry keeps the value it had, one that the request carries
  takes the submitted value, and \<open>due_date\<close> is null afterwards whenever the request
  omits it or carries the empty string.
\<close>

theorem update_partial:
  assumes "well_formed db" and "user req = Some u"
    and "todo_update to_python clock k req db = (Inr (Redirect ''todo_detail'' p), msgs, db')"
  shows "\<exists>t t'. get_object_or_404 db k u = Inr t \<and> get_object_or_404 db' k u = Inr t'
           \<and> (POST req ''title'' = None \<longrightarrow> title t' = title t)
           \<and> (POST req ''description'' = None \<longrightarrow> description t' = description t)
           \<and> (POST req ''status'' = None \<longrightarrow> status t' = status t)
           \<and> (POST req ''priority'' = None \<longrightarrow> priority t' = priority t)
           \<and> (\<forall>v. POST req ''title'' = Some v \<longrightarrow> title t' = v)
           \<and> (\<forall>v. POST req ''description'' = Some v \<longrightarrow> description t' = v)
           \<and> (\<forall>v. POST req ''status'' = Some v \<longrightarrow> status t' = v)
           \<and> (\<forall>v. POST req ''priority'' = Some v \<longrightarrow> priority t' = v)
           \<and> (POST req ''due_date'' = None \<or> POST req ''due_date'' = Some []
                \<longrightarrow> due_date t' = None)"
proof -
  from todo_update_effect [OF assms] obtain t d where
    g: "get_object_or_404 db k u = Inr t"
    and d: "get_prep_value to_python
                 (if truthy (POST req ''due_date'') then POST req ''due_date'' else None) = Inr d"
    and g': "get_object_or_404 db' k u =
               Inr (t\<lparr>title := get_default (POST req) ''title'' (title t),
                      description := get_default (POST req) ''description'' (description t),
                      status := get_default (POST req) ''status'' (status t),
                      priority := get_default (POST req) ''priority'' (priority t),
                      due_date := d, updated_at := clock 0\<rparr>)"
    by blast
  have "POST req ''due_date'' = None \<or> POST req ''due_date'' = Some [] \<longrightarrow> d = None"
    using d by (auto simp: truthy_def dest: get_prep_value_None)
  with g g' show ?thesis by (simp add: get_default_def)
qed

theorem update_partial_witness:
  "\<exists>t'. get_object_or_404
           (snd (snd (todo_update to_python_sample (ticks 20) 1
                        (POST_request 1 [(''status'', ''in_progress'')]) (one_task_store 1)))) 1 1
           = Inr t'
        \<and> title t' = ''a'' \<and> description t' = [] \<and> status t' = ''in_progress''
        \<and> priority t' = ''medium'' \<and> due_date t' = None"
proof -
  have u: "user (POST_request 1 [(''status'', ''in_progress'')]) = Some 1"
    by (simp add: POST_request_def)
  from update_partial [OF well_formed_one_task_store u update_one_task_store]
  show ?thesis
    unfolding update_one_task_store get_one_task_store POST_POST_request by auto
qed

text \<open>
  C6. For every successful update, \<open>completed_at\<close> of the task is what it was before,
  also when the request sets \<open>status\<close> to \<open>completed\<close>; the witness is a task that
  reaches \<open>status = completed\<close> with \<open>completed_at\<close> null by an update.
\<close>

theorem update_keeps_completed_at:
  assumes "well_formed db" and "user req = Some u"
    and "todo_update to_python clock k req db = (Inr (Redirect ''todo_detail'' p), msgs, db')"
  shows "\<exists>t t'. get_object_or_404 db k u = Inr t \<and> get_object_or_404 db' k u = Inr t'
           \<and> completed_at t' = completed_at t
           \<and> (POST req ''status'' = Some ''completed'' \<longrightarrow> status t' = ''completed'')"
proof -
  from todo_update_effect [OF assms] obtain t d where
    g: "get_object_or_404 db k u = Inr t"
    and g': "get_object_or_404 db' k u =
               Inr (t\<lparr>title := get_default (POST req) ''title'' (title t),
                      description := get_default (POST req) ''description'' (description t),
                      status := get_default (POST req) ''status'' (status t),
                      priority := get_default (POST req) ''priority'' (priority t),
                      due_date := d, updated_at := clock 0\<rparr>)"
    by blast
  then show ?thesis by (simp add: get_default_def)
qed

theorem update_keeps_completed_at_witness:
  "\<exists>t'. get_object_or_404
           (snd (snd (todo_update to_python_sample (ticks 20) 1
                        (POST_request 1 [(''status'', ''completed'')]) (one_task_store 1)))) 1 1
           = Inr t'
        \<and> status t' = ''completed'' \<and> completed_at t' = None"
proof -
  have u: "user (POST_request 1 [(''status'', ''completed'')]) = Some 1"
    by (simp add: POST_request_def)
  from update_keeps_completed_at [OF well_formed_one_task_store u update_one_task_store]
  show ?thesis
    unfolding update_one_task_store get_one_task_store POST_POST_request by auto
qed

text \<open>
  C7. After any non-empty run of \<open>todo_complete\<close> requests on a task of the requesting
  user, the task has \<open>status = completed\<close>, its \<open>completed_at\<close> is the clock reading
  that the last request of the run made in \<open>mark_as_completed\<close> and its \<open>updated_at\<close>
  the reading the last request made in \<open>save\<close>, whatever the earlier requests stamped;
  and a further request succeeds again. (The statement for a run and for each of its
  prefixes says it for every call of the run.)
\<close>

theorem complete_restamps:
  assumes "well_formed db" and "user req = Some u" and "get_object_or_404 db k u = Inr t"
    and "cs \<noteq> []"
  shows "\<exists>t'. get_object_or_404 (complete_calls cs k req db) k u = Inr t'
           \<and> status t' = ''completed''
           \<and> completed_at t' = Some (last cs 0)
           \<and> updated_at t' = last cs 1
           \<and> fst (todo_complete c k req (complete_calls cs k req db))
               = Inr (Redirect ''todo_list'' None)"
proof -
  let ?db = "complete_calls cs k req db"
  let ?t' = "t\<lparr>status := ''completed'', completed_at := Some (last cs 0),
               updated_at := last cs 1\<rparr>"
  from complete_calls_state [OF assms]
  have g: "get_object_or_404 ?db k u = Inr ?t'" by simp
  have "fst (todo_complete c k req ?db) = Inr (Redirect ''todo_list'' None)"
    using todo_complete_found [OF assms(2) g, of c] by simp
  with g show ?thesis by simp
qed

theorem complete_restamps_witness:
  "(\<exists>t'. get_object_or_404
          (complete_calls [ticks 40] 1 (GET_request 1 []) (one_task_store 1)) 1 1 = Inr t'
       \<and> status t' = ''completed'' \<and> completed_at t' = Some 40 \<and> updated_at t' = 41)
   \<and> (\<exists>t'. get_object_or_404
          (complete_calls [ticks 40, ticks 50] 1 (GET_request 1 []) (one_task_store 1)) 1 1
          = Inr t'
       \<and> status t' = ''completed'' \<and> completed_at t' = Some 50 \<and> updated_at t' = 51)"
  using complete_restamps [where req = "GET_request 1 []" and cs = "[ticks 40]"
      and c = "ticks 50", OF well_formed_one_task_store _ get_one_task_store]
    complete_restamps [where req = "GET_request 1 []" and cs = "[ticks 40, ticks 50]"
      and c = "ticks 60", OF well_formed_one_task_store _ get_one_task_store]
  by (auto simp: GET_request_def ticks_def)

text \<open>
  C10. \<open>todo_complete\<close> on a task of the requesting user changes \<open>status\<close>,
  \<open>completed_at\<close> and \<open>updated_at\<close> of that task and nothing else: \<open>title\<close>,
  \<open>description\<close>, \<open>priority\<close>, \<open>due_date\<close>, \<open>owner\<close>, \<open>created_at\<close> and the key
  are as before, and so are all other rows.
\<close>

theorem complete_frame:
  assumes "well_formed db" and "user req = Some u" and "get_object_or_404 db k u = Inr t"
  shows "\<exists>msgs db' t'.
           todo_complete clock k req db = (Inr (Redirect ''todo_list'' None), msgs, db')
         \<and> get_object_or_404 db' k u = Inr t'
         \<and> t' = t\<lparr>status := ''completed'', completed_at := Some (clock 0),
                   updated_at := clock 1\<rparr>
         \<and> title t' = title t \<and> description t' = description t \<and> priority t' = priority t
         \<and> due_date t' = due_date t \<and> owner t' = owner t \<and> created_at t' = created_at t
         \<and> pk t' = pk t
         \<and> filter (\<lambda>r. pk r \<noteq> k) (rows db') = filter (\<lambda>r. pk r \<noteq> k) (rows db)
         \<and> map pk (rows db') = map pk (rows db)"
proof -
  let ?t1 = "t\<lparr>status := ''completed'', completed_at := Some (clock 0)\<rparr>"
  let ?db' = "save (clock 1) ?t1 db"
  from assms(3) have kt: "pk t = k" and ot: "owner t = u"
    by (rule get_object_or_404_InrD)+
  have run: "todo_complete clock k req db =
      (Inr (Redirect ''todo_list'' None),
       [(SUCCESS, todo_message (title t) ''marked as completed!'')], ?db')"
    using assms(2,3) by (rule todo_complete_found)
  have "get_object_or_404 ?db' k u = Inr (?t1\<lparr>updated_at := clock 1\<rparr>)"
    using assms(1,3) kt ot by (intro get_save) simp_all
  moreover have "filter (\<lambda>r. pk r \<noteq> k) (rows ?db') = filter (\<lambda>r. pk r \<noteq> k) (rows db)"
    using others_save [of ?t1 "clock 1" db] kt by simp
  moreover have "map pk (rows ?db') = map pk (rows db)"
    using map_pk_replace [of "?t1\<lparr>updated_at := clock 1\<rparr>" "pk ?t1" "rows db"]
    by (simp add: save_def)
  ultimately show ?thesis using run by simp
qed

theorem complete_frame_witness:
  "\<exists>msgs db'.
      todo_complete (ticks 40) 1 (GET_request 1 []) (one_task_store 1)
        = (Inr (Redirect ''todo_list'' None), msgs, db')
    \<and> get_object_or_404 db' 1 1 =
        Inr \<lparr>pk = 1, title = ''a'', description = [], status = ''completed'',
             priority = ''medium'', due_date = None, created_at = 10, updated_at = 41,
             completed_at = Some 40, owner = 1\<rparr>"
  using complete_frame [where req = "GET_request 1 []" and clock = "ticks 40",
      OF well_formed_one_task_store _ get_one_task_store]
  by (auto simp: GET_request_def ticks_def)

text \<open>
  C8. For a logged-in owner, \<open>todo_list\<close> answers with the list page (never an error)
  and a sequence that holds exactly the rows of that owner that pass the filters
  present (both, when both are present), each as often as it is in the table, ordered
  by \<open>created_at\<close> descending; the sequence is empty when no row matches. A filter is
  present when the request carries a non-empty value for it.
\<close>

theorem todo_list_filters_and_orders:
  assumes "user req = Some u"
  shows "\<exists>todos. todo_list req db =
            (Inr (Render ''todo/todo_list.html''
               (ListContext todos (GET req ''status'') (GET req ''priority''))), [], db)
         \<and> mset todos =
             filter_mset (matches_filters u (GET req ''status'') (GET req ''priority''))
               (mset (rows db))
         \<and> sorted_wrt (\<lambda>a b. created_at b \<le> created_at a) todos
         \<and> ((\<forall>t \<in> set (rows db).
                \<not> matches_filters u (GET req ''status'') (GET req ''priority'') t)
              \<longrightarrow> todos = [])"
proof -
  let ?todos = "sort_key (\<lambda>t. - created_at t)
              (filter (matches_filters u (GET req ''status'') (GET req ''priority'')) (rows db))"
  have "todo_list req db =
            (Inr (Render ''todo/todo_list.html''
               (ListContext ?todos (GET req ''status'') (GET req ''priority''))), [], db)"
    using assms by (simp add: todo_list_def login_required_def todo_list_view_eq)
  moreover have "mset ?todos =
             filter_mset (matches_filters u (GET req ''status'') (GET req ''priority''))
               (mset (rows db))"
    by simp
  moreover have "sorted_wrt (\<lambda>a b. created_at b \<le> created_at a) ?todos"
    by (rule sorted_desc_sort_key)
  moreover have "(\<forall>t \<in> set (rows db).
                \<not> matches_filters u (GET req ''status'') (GET req ''priority'') t)
              \<longrightarrow> ?todos = []"
    by (simp add: filter_empty_conv)
  ultimately show ?thesis by blast
qed

theorem todo_list_filters_and_orders_witness:
  "(\<exists>todos. todo_list (GET_request 1 [(''status'', ''completed'')]) two_owner_store =
       (Inr (Render ''todo/todo_list.html'' (ListContext todos (Some ''completed'') None)), [],
        two_owner_store)
      \<and> map pk todos = [1])
   \<and> (\<exists>todos. todo_list (GET_request 1 []) two_owner_store =
       (Inr (Render ''todo/todo_list.html'' (ListContext todos None None)), [],
        two_owner_store)
      \<and> set (map pk todos) = {1, 3} \<and> sorted_wrt (\<lambda>a b. created_at b \<le> created_at a) todos)
   \<and> (\<exists>todos. todo_list (GET_request 1 [(''status'', ''completed''), (''priority'', ''high'')])
         two_owner_store =
       (Inr (Render ''todo/todo_list.html''
          (ListContext todos (Some ''completed'') (Some ''high''))), [], two_owner_store)
      \<and> todos = [])"
proof -
  note a = todo_list_filters_and_orders [OF user_GET_request,
      of 1 "[(''status'', ''completed'')]" two_owner_store]
  note b = todo_list_filters_and_orders [OF user_GET_request, of 1 "[]" two_owner_store]
  note c = todo_list_filters_and_orders [OF user_GET_request,
      of 1 "[(''status'', ''completed''), (''priority'', ''high'')]" two_owner_store]
  from a have "\<exists>todos. todo_list (GET_request 1 [(''status'', ''completed'')]) two_owner_store =
       (Inr (Render ''todo/todo_list.html'' (ListContext todos (Some ''completed'') None)), [],
        two_owner_store)
      \<and> map pk todos = [1]"
    unfolding GET_GET_request
    by (auto simp: two_owner_store_eq matches_filters_def truthy_def mset_single_iff_right
             dest!: sym [of "mset _"])
  moreover from b have "\<exists>todos. todo_list (GET_request 1 []) two_owner_store =
       (Inr (Render ''todo/todo_list.html'' (ListContext todos None None)), [],
        two_owner_store)
      \<and> set (map pk todos) = {1, 3} \<and> sorted_wrt (\<lambda>a b. created_at b \<le> created_at a) todos"
    unfolding GET_GET_request
    apply (simp add: two_owner_store_eq matches_filters_def truthy_def)
    apply (erule exE)
    subgoal for todos
      apply (rule exI [of _ todos])
      apply (elim conjE)
      apply (drule arg_cong [where f = set_mset])
      apply auto
      done
    done
  moreover from c have "\<exists>todos. todo_list (GET_request 1 [(''status'', ''completed''), (''priority'', ''high'')])
         two_owner_store =
       (Inr (Render ''todo/todo_list.html''
          (ListContext todos (Some ''completed'') (Some ''high''))), [], two_owner_store)
      \<and> todos = []"
    unfolding GET_GET_request
    by (auto simp: two_owner_store_eq matches_filters_def truthy_def)
  ultimately show ?thesis by blast
qed

end
